theory Spec2Isabelle
  imports Complex_Main "HOL-Library.AList"
begin

section \<open>Data model\<close>

text \<open>
  The module \<open>tkfontawesome/__init__.py\<close> has four functions: \<open>_collect_svg_files\<close>,
  \<open>_get_icon_file\<close>, \<open>svg_to_image\<close> and \<open>icon_to_image\<close>. They call three
  collaborators that live outside the module: the file system (\<open>Path.iterdir\<close>,
  \<open>open\<close>), the document library (\<open>etree.parse\<close>, \<open>tree.write\<close>) and the renderer
  (\<open>tksvg.SvgImage\<close>). The collaborators are parameters of the model, collected in the
  record \<open>env\<close>; every function of the module is translated statement by statement and
  returns the list of collaborator calls it made together with its result or the
  exception it raised.
\<close>

subsection \<open>Paths\<close>

text \<open>A path is the list of its components, as \<open>PurePath.parts\<close> has them.\<close>

type_synonym path = "string list"

definition joinpath :: "path \<Rightarrow> string list \<Rightarrow> path" where
  "joinpath p args = p @ args"

text \<open>\<open>str.rfind(c)\<close>: the highest index at which \<open>c\<close> occurs, or \<open>-1\<close>.\<close>

fun rfind :: "char \<Rightarrow> string \<Rightarrow> int" where
  "rfind c [] = - 1"
| "rfind c (x # xs) =
     (let r = rfind c xs in if 0 \<le> r then r + 1 else if x = c then 0 else - 1)"

text \<open>\<open>PurePath.name\<close>: the final component, the empty string when there is none.\<close>

definition path_name :: "path \<Rightarrow> string" where
  "path_name p = (if p = [] then [] else last p)"

text \<open>
  \<open>PurePath.stem\<close>: the final component without its suffix. A leading dot and a
  trailing dot do not start a suffix.
\<close>

definition stem :: "path \<Rightarrow> string" where
  "stem p =
     (let name = path_name p; i = rfind (CHR ''.'') name
      in if 0 < i \<and> i < int (length name) - 1 then take (nat i) name else name)"

subsection \<open>Documents\<close>

text \<open>
  An element of a parsed document: its tag, its attributes in document order, its text
  and its child elements. \<open>attrib\<close> is dictionary-like: assigning to a key that is
  present replaces the value in place, assigning to a new key appends it, which is
  \<^const>\<open>AList.update\<close>.
\<close>

datatype element =
  Element (tag: string) (attrib: "(string \<times> string) list") (elem_text: string)
    (children: "element list")

datatype etree = ElementTree (getroot: element)

text \<open>A file object, with the content it reads.\<close>

datatype fileobj = FileObj (content: string)

text \<open>The \<open>source\<close> argument of \<open>svg_to_image\<close>: a file name or a file object.\<close>

datatype source = SrcPath path | SrcFile fileobj

subsection \<open>Values, errors and calls\<close>

text \<open>
  The Python values that reach the renderer's keyword arguments. A float stands for
  its exact rational value (the non-finite floats are left out).
\<close>

datatype pyval = PInt int | PFloat rat | PBytes string

text \<open>Python's \<open>==\<close> on these values: numbers compare by value, bytes never equal a number.\<close>

fun py_eq :: "pyval \<Rightarrow> pyval \<Rightarrow> bool" where
  "py_eq (PInt a) (PInt b) = (a = b)"
| "py_eq (PInt a) (PFloat b) = (of_int a = b)"
| "py_eq (PFloat a) (PInt b) = (a = of_int b)"
| "py_eq (PFloat a) (PFloat b) = (a = b)"
| "py_eq (PBytes a) (PBytes b) = (a = b)"
| "py_eq _ _ = False"

text \<open>
  The truth value of an optional integer argument, as \<open>if scale_to_width:\<close> tests it:
  \<open>None\<close> and \<open>0\<close> are false.
\<close>

fun truthy :: "int option \<Rightarrow> bool" where
  "truthy None = False"
| "truthy (Some n) = (n \<noteq> 0)"

type_synonym kw = "(string \<times> pyval) list"

datatype os_error = FileNotFoundError | NotADirectoryError | PermissionError

datatype error =
  OSError os_error
| TypeError
| ValueError
| XMLSyntaxError string
| TclError string
| Exception string

datatype image = SvgImage_handle string

datatype call =
  Call_iterdir path
| Call_open source
| Call_parse fileobj
| Call_write etree
| Call_SvgImage kw

type_synonym 'a io = "call list \<times> (error + 'a)"

text \<open>The collaborators.\<close>

record env =
  module_dir :: path
  listdir :: "path \<Rightarrow> os_error + string list"
  open_path :: "path \<Rightarrow> os_error + fileobj"
  xml_parse :: "fileobj \<Rightarrow> string + etree"
  xml_write :: "etree \<Rightarrow> string"
  SvgImage :: "kw \<Rightarrow> string + image"

section \<open>Sequencing\<close>

text \<open>
  One statement after another: the calls are appended, and an exception of the first
  statement ends the function with that exception.
\<close>

definition io_return :: "'a \<Rightarrow> 'a io" where
  "io_return x = ([], Inr x)"

definition io_raise :: "error \<Rightarrow> 'a io" where
  "io_raise e = ([], Inl e)"

definition io_bind :: "'a io \<Rightarrow> ('a \<Rightarrow> 'b io) \<Rightarrow> 'b io" where
  "io_bind m f =
     (case m of
        (t, Inl e) \<Rightarrow> (t, Inl e)
      | (t, Inr x) \<Rightarrow> (case f x of (t', r) \<Rightarrow> (t @ t', r)))"

section \<open>Collaborator calls\<close>

text \<open>\<open>Path.iterdir\<close>: one child path for every entry of the directory.\<close>

definition iterdir :: "env \<Rightarrow> path \<Rightarrow> path list io" where
  "iterdir E d =
     ([Call_iterdir d],
      case listdir E d of
        Inl e \<Rightarrow> Inl (OSError e)
      | Inr names \<Rightarrow> Inr (map (\<lambda>n. joinpath d [n]) names))"

text \<open>
  The builtin \<open>open\<close>: it takes a file name and raises \<open>TypeError\<close> for a file object.
\<close>

definition py_open :: "env \<Rightarrow> source \<Rightarrow> fileobj io" where
  "py_open E src =
     ([Call_open src],
      case src of
        SrcPath p \<Rightarrow> (case open_path E p of Inl e \<Rightarrow> Inl (OSError e) | Inr f \<Rightarrow> Inr f)
      | SrcFile f \<Rightarrow> Inl TypeError)"

definition etree_parse :: "env \<Rightarrow> fileobj \<Rightarrow> etree io" where
  "etree_parse E p =
     ([Call_parse p],
      case xml_parse E p of Inl msg \<Rightarrow> Inl (XMLSyntaxError msg) | Inr t \<Rightarrow> Inr t)"

definition tree_write :: "env \<Rightarrow> etree \<Rightarrow> string io" where
  "tree_write E t = ([Call_write t], Inr (xml_write E t))"

definition tksvg_SvgImage :: "env \<Rightarrow> kw \<Rightarrow> image io" where
  "tksvg_SvgImage E k =
     ([Call_SvgImage k],
      case SvgImage E k of Inl msg \<Rightarrow> Inl (TclError msg) | Inr img \<Rightarrow> Inr img)"

section \<open>The module\<close>

text \<open>
  The document library's check of a text it is given, on the bytes of its UTF-8
  encoding: no NUL byte and no control character other than tab, line feed and carriage
  return, and not the encoding of \<open>U+FFFE\<close>, of \<open>U+FFFF\<close> or of a surrogate.
\<close>

definition xml_char :: "char \<Rightarrow> bool" where
  "xml_char c = (let n = (of_char c :: nat) in n = 9 \<or> n = 10 \<or> n = 13 \<or> 32 \<le> n)"

definition excluded_utf8 :: "char \<Rightarrow> string \<Rightarrow> bool" where
  "excluded_utf8 a s =
     (case s of
        b # c # _ \<Rightarrow>
          (let n = (of_char a * 65536 + of_char b * 256 + of_char c :: nat)
           in n = 0xEFBFBE \<or> n = 0xEFBFBF \<or> (0xEDA080 \<le> n \<and> n \<le> 0xEDBFBF))
      | _ \<Rightarrow> False)"

fun xml_compatible :: "string \<Rightarrow> bool" where
  "xml_compatible [] = True"
| "xml_compatible (a # s) = (xml_char a \<and> \<not> excluded_utf8 a s \<and> xml_compatible s)"

text \<open>The dictionary assignment \<open>attrib["fill"] = v\<close> on the root, once it is accepted.\<close>

definition assign_fill :: "etree \<Rightarrow> string \<Rightarrow> etree" where
  "assign_fill t v =
     (case getroot t of
        Element tg ats tx ch \<Rightarrow>
          ElementTree (Element tg (AList.update ''fill'' v ats) tx ch))"

text \<open>
  \<open>root.attrib["fill"] = fill\<close>, on the root of the tree. The value is a \<open>str\<close>, as
  the docstring types it; the document library checks it first and raises
  \<open>ValueError\<close>, leaving the tree as it is, when the check fails.
\<close>

definition set_root_fill :: "etree \<Rightarrow> string \<Rightarrow> etree io" where
  "set_root_fill t v =
     (if xml_compatible v then io_return (assign_fill t v) else io_raise ValueError)"

text \<open>
  \<open>svg_to_image\<close>: open, parse, set the fill when one is given, serialise, build the
  keyword arguments (a \<open>dict\<close>, in insertion order) and call the renderer. The optional
  arguments have the types of the docstring.
\<close>

definition svg_to_image ::
  "env \<Rightarrow> source \<Rightarrow> string option \<Rightarrow> int option \<Rightarrow> int option \<Rightarrow> pyval \<Rightarrow> image io" where
  "svg_to_image E source fill scale_to_width scale_to_height scale =
     io_bind (py_open E source) (\<lambda>p.
     io_bind (etree_parse E p) (\<lambda>tree.
     io_bind (case fill of None \<Rightarrow> io_return tree | Some v \<Rightarrow> set_root_fill tree v) (\<lambda>tree1.
     io_bind (tree_write E tree1) (\<lambda>imgdata.
       let kw0 = [(''data'', PBytes imgdata)];
           kw1 = (if truthy scale_to_width
                  then AList.update ''scaletowidth'' (PInt (the scale_to_width)) kw0 else kw0);
           kw2 = (if truthy scale_to_height
                  then AList.update ''scaletoheight'' (PInt (the scale_to_height)) kw1 else kw1);
           kw3 = (if \<not> py_eq scale (PInt 1)
                  then AList.update ''scale'' scale kw2 else kw2)
       in tksvg_SvgImage E kw3))))"

text \<open>
  \<open>_collect_svg_files\<close>: \<open>files.extend\<close> runs each \<open>iterdir\<close> to its end, so a
  directory that cannot be listed raises here, before any file is looked at.
\<close>

definition collect_svg_files :: "env \<Rightarrow> path list io" where
  "collect_svg_files E =
     (let files = [];
          root = module_dir E
      in io_bind (iterdir E (joinpath root [''svgs'', ''brands''])) (\<lambda>bs.
         io_bind (iterdir E (joinpath root [''svgs'', ''regular''])) (\<lambda>rs.
         io_bind (iterdir E (joinpath root [''svgs'', ''solid''])) (\<lambda>ss.
         io_return (((files @ bs) @ rs) @ ss)))))"

text \<open>The loop of \<open>_get_icon_file\<close>: the first file whose stem is the name.\<close>

fun first_with_stem :: "string \<Rightarrow> path list \<Rightarrow> path option" where
  "first_with_stem name [] = None"
| "first_with_stem name (file # files) =
     (if stem file = name then Some file else first_with_stem name files)"

definition not_valid_message :: "string \<Rightarrow> string" where
  "not_valid_message name =
     [CHR 0x27] @ name @ [CHR 0x27] @
     '' is not a valid icon name. Check spelling and consult https://fontawesome.com/v5.0/icons.''"

definition get_icon_file :: "env \<Rightarrow> string \<Rightarrow> path io" where
  "get_icon_file E name =
     io_bind (collect_svg_files E) (\<lambda>files.
       case first_with_stem name files of
         Some file \<Rightarrow> io_return file
       | None \<Rightarrow> io_raise (Exception (not_valid_message name)))"

definition icon_to_image ::
  "env \<Rightarrow> string \<Rightarrow> string option \<Rightarrow> int option \<Rightarrow> int option \<Rightarrow> pyval \<Rightarrow> image io" where
  "icon_to_image E name fill scale_to_width scale_to_height scale =
     io_bind (get_icon_file E name) (\<lambda>file.
     io_bind (svg_to_image E (SrcPath file) fill scale_to_width scale_to_height scale) (\<lambda>img_data.
     io_return img_data))"

section \<open>Observations on a run\<close>

text \<open>The three category directories, and the child paths of a directory listing.\<close>

definition category_dir :: "env \<Rightarrow> string \<Rightarrow> path" where
  "category_dir E c = joinpath (module_dir E) [''svgs'', c]"

definition entries :: "path \<Rightarrow> string list \<Rightarrow> path list" where
  "entries d names = map (\<lambda>n. joinpath d [n]) names"

text \<open>A \<open>fill\<close> argument that is absent or passes the document library's check.\<close>

definition fill_accepted :: "string option \<Rightarrow> bool" where
  "fill_accepted fill = (case fill of None \<Rightarrow> True | Some v \<Rightarrow> xml_compatible v)"

text \<open>The configurations handed to the renderer during a run, in order.\<close>

fun configs :: "call list \<Rightarrow> kw list" where
  "configs [] = []"
| "configs (Call_SvgImage k # t) = k # configs t"
| "configs (_ # t) = configs t"

text \<open>The trees handed to the serialiser during a run, in order.\<close>

fun written :: "call list \<Rightarrow> etree list" where
  "written [] = []"
| "written (Call_write d # t) = d # written t"
| "written (_ # t) = written t"

fun opens_or_parses :: "call \<Rightarrow> bool" where
  "opens_or_parses (Call_open _) = True"
| "opens_or_parses (Call_parse _) = True"
| "opens_or_parses _ = False"

text \<open>
  The icon lookup as the specification words it: the renderer applied to the resolver's
  result, an error of either one passed on as it is.
\<close>

definition icon_spec ::
  "env \<Rightarrow> string \<Rightarrow> string option \<Rightarrow> int option \<Rightarrow> int option \<Rightarrow> pyval \<Rightarrow> image io" where
  "icon_spec E name fill scale_to_width scale_to_height scale =
     (case get_icon_file E name of
        (t, Inl e) \<Rightarrow> (t, Inl e)
      | (t, Inr file) \<Rightarrow>
          (case svg_to_image E (SrcPath file) fill scale_to_width scale_to_height scale of
             (t', r) \<Rightarrow> (t @ t', r)))"

section \<open>An example installation\<close>

text \<open>
  A small asset store in which \<open>facebook\<close> is both a brand icon and a regular icon, one
  readable icon file, and a serialiser that prints tags and attributes.
\<close>

definition facebook_svg :: string where
  \<open>facebook_svg = ''<svg fill="black"><path d="M504 256z"></path></svg>''\<close>

definition facebook_tree :: etree where
  "facebook_tree =
     ElementTree (Element ''svg'' [(''fill'', ''black'')] []
       [Element ''path'' [(''d'', ''M504 256z'')] [] []])"

fun demo_attrs :: "(string \<times> string) list \<Rightarrow> string" where
  "demo_attrs [] = []"
| \<open>demo_attrs ((k, v) # r) = '' '' @ k @ ''="'' @ v @ ''"'' @ demo_attrs r\<close>

fun demo_element :: "element \<Rightarrow> string" where
  "demo_element (Element tg ats tx ch) =
     ''<'' @ tg @ demo_attrs ats @ ''>'' @ tx @ concat (map demo_element ch)
     @ ''</'' @ tg @ ''>''"

definition demo_listdir :: "path \<Rightarrow> os_error + string list" where
  "demo_listdir d =
     (if d = [''tkfontawesome'', ''svgs'', ''brands'']
        then Inr [''github.svg'', ''facebook.svg'']
      else if d = [''tkfontawesome'', ''svgs'', ''regular'']
        then Inr [''facebook.svg'', ''star.svg'']
      else if d = [''tkfontawesome'', ''svgs'', ''solid'']
        then Inr [''star.svg'', ''home.svg'']
      else Inl FileNotFoundError)"

definition facebook_path :: path where
  "facebook_path = [''tkfontawesome'', ''svgs'', ''brands'', ''facebook.svg'']"

definition demo_open :: "path \<Rightarrow> os_error + fileobj" where
  "demo_open p =
     (if p = facebook_path then Inr (FileObj facebook_svg) else Inl FileNotFoundError)"

definition demo_parse :: "fileobj \<Rightarrow> string + etree" where
  "demo_parse f =
     (if content f = facebook_svg then Inr facebook_tree else Inl ''syntax error'')"

definition demo_env :: env where
  "demo_env =
     \<lparr>module_dir = [''tkfontawesome''], listdir = demo_listdir, open_path = demo_open,
      xml_parse = demo_parse, xml_write = (\<lambda>t. demo_element (getroot t)),
      SvgImage = (\<lambda>k. Inr (SvgImage_handle ''pyimage1''))\<rparr>"

text \<open>The same installation with the \<open>solid\<close> directory missing.\<close>

definition broken_env :: env where
  "broken_env =
     demo_env\<lparr>listdir := (\<lambda>d. if d = [''tkfontawesome'', ''svgs'', ''solid'']
                                then Inl FileNotFoundError else demo_listdir d)\<rparr>"

section \<open>Basic facts\<close>

lemma io_bind_Inl: "io_bind (t, Inl e) f = (t, Inl e)"
  by (simp add: io_bind_def)

lemma io_bind_Inr: "io_bind (t, Inr x) f = (t @ fst (f x), snd (f x))"
  by (simp add: io_bind_def split: prod.splits)

lemma io_bind_return: "io_bind m io_return = m"
  by (cases m) (auto simp: io_bind_def io_return_def split: sum.splits)

subsection \<open>The search loop\<close>

lemma first_with_stem_None:
  "first_with_stem name fs = None \<longleftrightarrow> (\<forall>f \<in> set fs. stem f \<noteq> name)"
  by (induction fs) auto

lemma first_with_stem_Some:
  "first_with_stem name fs = Some f \<Longrightarrow>
     \<exists>pre post. fs = pre @ f # post \<and> stem f = name \<and> (\<forall>g \<in> set pre. stem g \<noteq> name)"
proof (induction fs)
  case Nil
  then show ?case by simp
next
  case (Cons a fs)
  show ?case
  proof (cases "stem a = name")
    case True
    with Cons.prems have "a = f" by simp
    with True have "a # fs = [] @ f # fs \<and> stem f = name \<and> (\<forall>g \<in> set []. stem g \<noteq> name)"
      by simp
    then show ?thesis by blast
  next
    case False
    with Cons.prems have "first_with_stem name fs = Some f" by simp
    from Cons.IH [OF this] obtain pre post where
      "fs = pre @ f # post" "stem f = name" "\<forall>g \<in> set pre. stem g \<noteq> name" by blast
    with False have "a # fs = (a # pre) @ f # post \<and> stem f = name
        \<and> (\<forall>g \<in> set (a # pre). stem g \<noteq> name)" by simp
    then show ?thesis by blast
  qed
qed

lemma first_with_stem_append:
  "first_with_stem name (xs @ ys) =
     (case first_with_stem name xs of Some f \<Rightarrow> Some f | None \<Rightarrow> first_with_stem name ys)"
  by (induction xs) auto

lemma first_with_stem_mem: "first_with_stem name fs = Some f \<Longrightarrow> f \<in> set fs"
  by (induction fs) (auto split: if_splits)

subsection \<open>Enumerating the asset store\<close>

lemma collect_svg_files_ok:
  assumes "listdir E (category_dir E ''brands'') = Inr bs"
    and "listdir E (category_dir E ''regular'') = Inr rs"
    and "listdir E (category_dir E ''solid'') = Inr ss"
  shows "collect_svg_files E =
     ([Call_iterdir (category_dir E ''brands''), Call_iterdir (category_dir E ''regular''),
       Call_iterdir (category_dir E ''solid'')],
      Inr (entries (category_dir E ''brands'') bs @ entries (category_dir E ''regular'') rs
           @ entries (category_dir E ''solid'') ss))"
  using assms
  by (simp add: collect_svg_files_def iterdir_def category_dir_def entries_def
      io_bind_Inr io_return_def Let_def)

lemma collect_svg_files_fail:
  assumes "listdir E (category_dir E ''brands'') = Inl e1
     \<or> listdir E (category_dir E ''regular'') = Inl e2
     \<or> listdir E (category_dir E ''solid'') = Inl e3"
  shows "\<exists>c e. c \<in> {''brands'', ''regular'', ''solid''} \<and> listdir E (category_dir E c) = Inl e
     \<and> snd (collect_svg_files E) = Inl (OSError e)"
proof (cases "listdir E (category_dir E ''brands'')")
  case (Inl e)
  then have "snd (collect_svg_files E) = Inl (OSError e)"
    by (simp add: collect_svg_files_def iterdir_def category_dir_def io_bind_Inl Let_def)
  with Inl show ?thesis by blast
next
  case b: (Inr bs)
  show ?thesis
  proof (cases "listdir E (category_dir E ''regular'')")
    case (Inl e)
    with b have "snd (collect_svg_files E) = Inl (OSError e)"
      by (simp add: collect_svg_files_def iterdir_def category_dir_def io_bind_Inl
          io_bind_Inr Let_def)
    with Inl show ?thesis by blast
  next
    case r: (Inr rs)
    from assms b r obtain e where s: "listdir E (category_dir E ''solid'') = Inl e"
      by auto
    with b r have "snd (collect_svg_files E) = Inl (OSError e)"
      by (simp add: collect_svg_files_def iterdir_def category_dir_def io_bind_Inl
          io_bind_Inr Let_def)
    with s show ?thesis by blast
  qed
qed

lemma get_icon_file_not_found:
  assumes "listdir E (category_dir E ''brands'') = Inr bs"
    and "listdir E (category_dir E ''regular'') = Inr rs"
    and "listdir E (category_dir E ''solid'') = Inr ss"
    and "name \<notin> set (map stem (entries (category_dir E ''brands'') bs
            @ entries (category_dir E ''regular'') rs
            @ entries (category_dir E ''solid'') ss))"
  shows "get_icon_file E name =
     ([Call_iterdir (category_dir E ''brands''), Call_iterdir (category_dir E ''regular''),
       Call_iterdir (category_dir E ''solid'')],
      Inl (Exception (not_valid_message name)))"
proof -
  from assms(4) have "first_with_stem name (entries (category_dir E ''brands'') bs
      @ entries (category_dir E ''regular'') rs @ entries (category_dir E ''solid'') ss) = None"
    unfolding first_with_stem_None by auto
  then show ?thesis
    by (simp add: get_icon_file_def collect_svg_files_ok [OF assms(1-3)] io_bind_Inr
        io_raise_def)
qed

subsection \<open>The calls of one rendering\<close>

lemma svg_to_image_ok:
  assumes "open_path E path = Inr p" and "xml_parse E p = Inr tree"
    and "fill_accepted fill"
  shows "fst (svg_to_image E (SrcPath path) fill sw sh sc) =
     [Call_open (SrcPath path), Call_parse p,
      Call_write (case fill of None \<Rightarrow> tree | Some v \<Rightarrow> assign_fill tree v),
      Call_SvgImage
        ([(''data'',
           PBytes (xml_write E (case fill of None \<Rightarrow> tree | Some v \<Rightarrow> assign_fill tree v)))]
         @ (if truthy sw then [(''scaletowidth'', PInt (the sw))] else [])
         @ (if truthy sh then [(''scaletoheight'', PInt (the sh))] else [])
         @ (if py_eq sc (PInt 1) then [] else [(''scale'', sc)]))]"
  using assms
  by (simp add: svg_to_image_def py_open_def etree_parse_def tree_write_def
      tksvg_SvgImage_def set_root_fill_def fill_accepted_def io_return_def
      io_bind_Inr Let_def split: option.splits)

lemma svg_to_image_refused:
  assumes "open_path E path = Inr p" and "xml_parse E p = Inr tree"
    and "\<not> xml_compatible v"
  shows "svg_to_image E (SrcPath path) (Some v) sw sh sc =
     ([Call_open (SrcPath path), Call_parse p], Inl ValueError)"
  using assms
  by (simp add: svg_to_image_def py_open_def etree_parse_def set_root_fill_def
      io_raise_def io_bind_Inl io_bind_Inr)

subsection \<open>The example installation\<close>

lemma demo_dirs:
  "listdir demo_env (category_dir demo_env ''brands'') = Inr [''github.svg'', ''facebook.svg'']"
  "listdir demo_env (category_dir demo_env ''regular'') = Inr [''facebook.svg'', ''star.svg'']"
  "listdir demo_env (category_dir demo_env ''solid'') = Inr [''star.svg'', ''home.svg'']"
  by (simp_all add: demo_env_def demo_listdir_def category_dir_def joinpath_def)

lemma demo_stems:
  "stem (joinpath d [''github.svg'']) = ''github''"
  "stem (joinpath d [''facebook.svg'']) = ''facebook''"
  "stem (joinpath d [''star.svg'']) = ''star''"
  "stem (joinpath d [''home.svg'']) = ''home''"
  by (simp_all add: stem_def path_name_def joinpath_def Let_def)

lemma demo_source:
  "open_path demo_env facebook_path = Inr (FileObj facebook_svg)"
  "xml_parse demo_env (FileObj facebook_svg) = Inr facebook_tree"
  by (simp_all add: demo_env_def demo_open_def demo_parse_def)

lemma demo_fills:
  "fill_accepted None"
  "xml_compatible ''#112233''"
  "fill_accepted (Some ''#112233'')"
  "\<not> xml_compatible [CHR 0x01]"
  by (simp_all add: fill_accepted_def xml_char_def excluded_utf8_def)

lemma demo_write_tree: "xml_write demo_env facebook_tree = facebook_svg"
  by (simp add: demo_env_def facebook_tree_def facebook_svg_def)

lemma demo_no_match:
  "''not-a-real-icon'' \<notin> set (map stem
     (entries (category_dir demo_env ''brands'') [''github.svg'', ''facebook.svg'']
      @ entries (category_dir demo_env ''regular'') [''facebook.svg'', ''star.svg'']
      @ entries (category_dir demo_env ''solid'') [''star.svg'', ''home.svg'']))"
  by (simp add: entries_def demo_stems)

lemma demo_resolve_facebook: "snd (get_icon_file demo_env ''facebook'') = Inr facebook_path"
  by (simp add: get_icon_file_def collect_svg_files_ok [OF demo_dirs] io_bind_Inr io_return_def
      entries_def demo_stems)
    (simp add: category_dir_def joinpath_def demo_env_def facebook_path_def)

lemma broken_dirs:
  "listdir broken_env (category_dir broken_env ''brands'') = Inr [''github.svg'', ''facebook.svg'']"
  "listdir broken_env (category_dir broken_env ''solid'') = Inl FileNotFoundError"
  by (simp_all add: broken_env_def demo_env_def demo_listdir_def category_dir_def joinpath_def)

section \<open>The name resolver\<close>

text \<open>
  Claim C1. When the three category directories can be listed and some file among them
  has the requested stem, \<open>_get_icon_file\<close> returns the first such file of the
  listing of \<open>brands\<close>, followed by that of \<open>regular\<close>, followed by that of
  \<open>solid\<close>: no file before it has the stem. In particular, when a file of
  \<open>brands\<close> has the stem, the file returned is a file of \<open>brands\<close>, whatever
  \<open>regular\<close> and \<open>solid\<close> hold.
\<close>

theorem C1_first_match:
  assumes "listdir E (category_dir E ''brands'') = Inr bs"
    and "listdir E (category_dir E ''regular'') = Inr rs"
    and "listdir E (category_dir E ''solid'') = Inr ss"
    and "name \<in> set (map stem (entries (category_dir E ''brands'') bs
            @ entries (category_dir E ''regular'') rs
            @ entries (category_dir E ''solid'') ss))"
  shows "\<exists>pre f post.
      entries (category_dir E ''brands'') bs @ entries (category_dir E ''regular'') rs
        @ entries (category_dir E ''solid'') ss = pre @ f # post
      \<and> name \<notin> set (map stem pre)
      \<and> stem f = name
      \<and> snd (get_icon_file E name) = Inr f
      \<and> (name \<in> set (map stem (entries (category_dir E ''brands'') bs))
           \<longrightarrow> f \<in> set (entries (category_dir E ''brands'') bs))"
proof -
  let ?B = "entries (category_dir E ''brands'') bs"
  let ?R = "entries (category_dir E ''regular'') rs @ entries (category_dir E ''solid'') ss"
  from assms(4) obtain f where f: "first_with_stem name (?B @ ?R) = Some f"
    using first_with_stem_None [of name "?B @ ?R"]
    by (cases "first_with_stem name (?B @ ?R)") auto
  from first_with_stem_Some [OF f] obtain pre post where
    parts: "?B @ ?R = pre @ f # post" "stem f = name" "\<forall>g \<in> set pre. stem g \<noteq> name"
    by blast
  from parts(3) have "name \<notin> set (map stem pre)"
    by auto
  with parts have split: "?B @ ?R = pre @ f # post \<and> name \<notin> set (map stem pre) \<and> stem f = name"
    by simp
  have res: "snd (get_icon_file E name) = Inr f"
    using f by (simp add: get_icon_file_def collect_svg_files_ok [OF assms(1-3)]
        io_bind_Inr io_return_def)
  have prec: "f \<in> set ?B" if "name \<in> set (map stem ?B)"
  proof -
    from that obtain h where "first_with_stem name ?B = Some h"
      using first_with_stem_None [of name ?B] by (cases "first_with_stem name ?B") auto
    with f have "first_with_stem name ?B = Some f"
      by (simp add: first_with_stem_append)
    then show ?thesis by (rule first_with_stem_mem)
  qed
  from split res prec show ?thesis by blast
qed

text \<open>
  In the example installation \<open>facebook.svg\<close> is in \<open>brands\<close> and in \<open>regular\<close>;
  the lookup of \<open>facebook\<close> returns a file of \<open>brands\<close>.
\<close>

theorem C1_first_match_witness:
  "listdir demo_env (category_dir demo_env ''brands'') = Inr [''github.svg'', ''facebook.svg'']
   \<and> listdir demo_env (category_dir demo_env ''regular'') = Inr [''facebook.svg'', ''star.svg'']
   \<and> listdir demo_env (category_dir demo_env ''solid'') = Inr [''star.svg'', ''home.svg'']
   \<and> ''facebook'' \<in> set (map stem
         (entries (category_dir demo_env ''brands'') [''github.svg'', ''facebook.svg'']))
   \<and> (\<exists>f. snd (get_icon_file demo_env ''facebook'') = Inr f
         \<and> stem f = ''facebook''
         \<and> f \<in> set (entries (category_dir demo_env ''brands'')
                        [''github.svg'', ''facebook.svg'']))"
proof -
  have m: "''facebook'' \<in> set (map stem
      (entries (category_dir demo_env ''brands'') [''github.svg'', ''facebook.svg'']))"
    by (simp add: entries_def demo_stems)
  then have a: "''facebook'' \<in> set (map stem
      (entries (category_dir demo_env ''brands'') [''github.svg'', ''facebook.svg'']
      @ entries (category_dir demo_env ''regular'') [''facebook.svg'', ''star.svg'']
      @ entries (category_dir demo_env ''solid'') [''star.svg'', ''home.svg'']))"
    by simp
  from C1_first_match [OF demo_dirs a] m demo_dirs show ?thesis by blast
qed

text \<open>
  Claim C2. When the three category directories can be listed and no file among them has
  the requested stem, \<open>_get_icon_file\<close> returns no path: it raises an exception whose
  message holds the name, between quotes, and ends with the advice to check the
  spelling and to consult the icon registry.
\<close>

theorem C2_not_found:
  assumes "listdir E (category_dir E ''brands'') = Inr bs"
    and "listdir E (category_dir E ''regular'') = Inr rs"
    and "listdir E (category_dir E ''solid'') = Inr ss"
    and "name \<notin> set (map stem (entries (category_dir E ''brands'') bs
            @ entries (category_dir E ''regular'') rs
            @ entries (category_dir E ''solid'') ss))"
  shows "\<exists>msg pre mid.
      snd (get_icon_file E name) = Inl (Exception msg)
      \<and> msg = pre @ name @ mid
          @ ''Check spelling and consult https://fontawesome.com/v5.0/icons.''"
proof -
  have "not_valid_message name =
      [CHR 0x27] @ name @ ([CHR 0x27] @ '' is not a valid icon name. '')
      @ ''Check spelling and consult https://fontawesome.com/v5.0/icons.''"
    by (simp add: not_valid_message_def)
  moreover have "snd (get_icon_file E name) = Inl (Exception (not_valid_message name))"
    by (simp add: get_icon_file_not_found [OF assms])
  ultimately show ?thesis by metis
qed

theorem C2_not_found_witness:
  "listdir demo_env (category_dir demo_env ''brands'') = Inr [''github.svg'', ''facebook.svg'']
   \<and> listdir demo_env (category_dir demo_env ''regular'') = Inr [''facebook.svg'', ''star.svg'']
   \<and> listdir demo_env (category_dir demo_env ''solid'') = Inr [''star.svg'', ''home.svg'']
   \<and> ''not-a-real-icon'' \<notin> set (map stem
        (entries (category_dir demo_env ''brands'') [''github.svg'', ''facebook.svg'']
         @ entries (category_dir demo_env ''regular'') [''facebook.svg'', ''star.svg'']
         @ entries (category_dir demo_env ''solid'') [''star.svg'', ''home.svg'']))
   \<and> (\<exists>msg pre mid.
        snd (get_icon_file demo_env ''not-a-real-icon'') = Inl (Exception msg)
        \<and> msg = pre @ ''not-a-real-icon'' @ mid
            @ ''Check spelling and consult https://fontawesome.com/v5.0/icons.'')"
  using C2_not_found [OF demo_dirs demo_no_match] demo_dirs demo_no_match by blast

text \<open>
  Claim C10. \<open>_get_icon_file\<close> lists the three directories before it compares any
  stem. When one of them cannot be listed, the lookup of every name raises the
  \<open>OSError\<close> of a directory that failed, and not the exception for an unknown name,
  whatever the directories listed before hold.
\<close>

theorem C10_missing_directory:
  assumes "listdir E (category_dir E ''brands'') = Inl e1
     \<or> listdir E (category_dir E ''regular'') = Inl e2
     \<or> listdir E (category_dir E ''solid'') = Inl e3"
  shows "\<exists>c e. c \<in> {''brands'', ''regular'', ''solid''}
      \<and> listdir E (category_dir E c) = Inl e
      \<and> snd (get_icon_file E name) = Inl (OSError e)
      \<and> snd (get_icon_file E name) \<noteq> Inl (Exception (not_valid_message name))"
proof -
  from collect_svg_files_fail [OF assms] obtain c e where
    c: "c \<in> {''brands'', ''regular'', ''solid''}" "listdir E (category_dir E c) = Inl e"
    and f: "snd (collect_svg_files E) = Inl (OSError e)"
    by blast
  from f have "snd (get_icon_file E name) = Inl (OSError e)"
    by (cases "collect_svg_files E") (simp add: get_icon_file_def io_bind_Inl)
  with c show ?thesis by auto
qed

text \<open>
  With \<open>solid\<close> missing, the lookup of \<open>facebook\<close> fails although \<open>brands\<close>, listed
  first, holds \<open>facebook.svg\<close>.
\<close>

theorem C10_missing_directory_witness:
  "listdir broken_env (category_dir broken_env ''solid'') = Inl FileNotFoundError
   \<and> listdir broken_env (category_dir broken_env ''brands'')
        = Inr [''github.svg'', ''facebook.svg'']
   \<and> stem (joinpath (category_dir broken_env ''brands'') [''facebook.svg'']) = ''facebook''
   \<and> (\<exists>c e. c \<in> {''brands'', ''regular'', ''solid''}
      \<and> listdir broken_env (category_dir broken_env c) = Inl e
      \<and> snd (get_icon_file broken_env ''facebook'') = Inl (OSError e)
      \<and> snd (get_icon_file broken_env ''facebook'')
           \<noteq> Inl (Exception (not_valid_message ''facebook'')))"
  using C10_missing_directory [of broken_env _ _ FileNotFoundError "''facebook''"]
    broken_dirs demo_stems(2)
  by simp

section \<open>The renderer\<close>

text \<open>
  Claim C3, as stated, fails: with \<open>scale_to_width = 0\<close>, which is not \<open>None\<close>, the
  one configuration handed to the renderer holds the key \<open>data\<close> alone.
\<close>

theorem C3_zero_width_omitted:
  "configs (fst (svg_to_image demo_env (SrcPath facebook_path) None (Some 0) None (PInt 1)))
     = [[(''data'', PBytes facebook_svg)]]"
  by (simp add: svg_to_image_ok [OF demo_source demo_fills(1)] demo_write_tree)

text \<open>
  Claim C3, amended. When the source opens and parses and the fill, if one is given,
  is accepted as an attribute value, \<open>svg_to_image\<close> hands one configuration to the
  renderer. It holds the key \<open>scaletowidth\<close> exactly when
  \<open>scale_to_width\<close> is neither \<open>None\<close> nor \<open>0\<close>, with that value, and the key
  \<open>scaletoheight\<close> exactly when \<open>scale_to_height\<close> is neither \<open>None\<close> nor \<open>0\<close>,
  with that value.
\<close>

theorem C3_scale_to_size_keys:
  assumes "open_path E path = Inr p" and "xml_parse E p = Inr tree"
    and "fill_accepted fill"
  shows "\<exists>k.
      configs (fst (svg_to_image E (SrcPath path) fill scale_to_width scale_to_height scale)) = [k]
      \<and> map_of k ''scaletowidth'' =
          (case scale_to_width of None \<Rightarrow> None
           | Some w \<Rightarrow> if w = 0 then None else Some (PInt w))
      \<and> map_of k ''scaletoheight'' =
          (case scale_to_height of None \<Rightarrow> None
           | Some h \<Rightarrow> if h = 0 then None else Some (PInt h))"
  by (simp add: svg_to_image_ok [OF assms] split: option.splits)

theorem C3_scale_to_size_keys_witness:
  "open_path demo_env facebook_path = Inr (FileObj facebook_svg)
   \<and> xml_parse demo_env (FileObj facebook_svg) = Inr facebook_tree
   \<and> fill_accepted None
   \<and> (\<exists>k. configs (fst (svg_to_image demo_env (SrcPath facebook_path) None
                (Some 64) (Some 0) (PInt 1))) = [k]
      \<and> map_of k ''scaletowidth'' = Some (PInt 64)
      \<and> map_of k ''scaletoheight'' = None)"
  using C3_scale_to_size_keys [OF demo_source demo_fills(1), of "Some 64" "Some 0" "PInt 1"]
    demo_source demo_fills(1)
  by simp

text \<open>
  Claim C4 does not hold of the code: \<open>svg_to_image\<close> passes its source to
  \<open>open\<close>, so for every file object it makes that one call and raises \<open>TypeError\<close>;
  nothing is parsed and no image is returned.
\<close>

theorem C4_file_object_rejected:
  "svg_to_image E (SrcFile f) fill scale_to_width scale_to_height scale
     = ([Call_open (SrcFile f)], Inl TypeError)"
  by (simp add: svg_to_image_def py_open_def io_bind_Inl)

text \<open>
  Claim C5, as stated, fails: the document library refuses the fill value that is the
  one control character \<open>U+0001\<close>. The assignment raises \<open>ValueError\<close> after the
  source is opened and parsed; nothing is serialised and the renderer is not called.
\<close>

theorem C5_control_character_refused:
  "svg_to_image demo_env (SrcPath facebook_path) (Some [CHR 0x01]) None None (PInt 1)
     = ([Call_open (SrcPath facebook_path), Call_parse (FileObj facebook_svg)], Inl ValueError)"
  by (simp add: svg_to_image_refused [OF demo_source demo_fills(4)])

text \<open>
  Claim C5, amended. When the source opens and parses and the fill value \<open>v\<close> is
  accepted as an attribute value, \<open>svg_to_image\<close> with \<open>fill = v\<close>
  serialises one tree and hands one configuration to the renderer, whose \<open>data\<close>
  entry is the serialisation of that tree. The root of that tree has the attribute
  \<open>fill\<close> with value \<open>v\<close> (whether the parsed root had one or not), and it differs
  from the parsed tree in nothing else: the other attributes of the root, its tag, its
  text and all its child elements are those of the parsed tree.
\<close>

theorem C5_fill_override:
  assumes "open_path E path = Inr p" and "xml_parse E p = Inr tree"
    and "xml_compatible v"
  shows "\<exists>tree' k.
      written (fst (svg_to_image E (SrcPath path) (Some v)
                 scale_to_width scale_to_height scale)) = [tree']
      \<and> configs (fst (svg_to_image E (SrcPath path) (Some v)
                 scale_to_width scale_to_height scale)) = [k]
      \<and> map_of k ''data'' = Some (PBytes (xml_write E tree'))
      \<and> map_of (attrib (getroot tree')) ''fill'' = Some v
      \<and> (\<forall>a. a \<noteq> ''fill'' \<longrightarrow>
            map_of (attrib (getroot tree')) a = map_of (attrib (getroot tree)) a)
      \<and> tag (getroot tree') = tag (getroot tree)
      \<and> elem_text (getroot tree') = elem_text (getroot tree)
      \<and> children (getroot tree') = children (getroot tree)"
proof -
  let ?t = "assign_fill tree v"
  let ?run = "fst (svg_to_image E (SrcPath path) (Some v) scale_to_width scale_to_height scale)"
  have "map_of (attrib (getroot ?t)) ''fill'' = Some v"
    and "\<forall>a. a \<noteq> ''fill'' \<longrightarrow> map_of (attrib (getroot ?t)) a = map_of (attrib (getroot tree)) a"
    and "tag (getroot ?t) = tag (getroot tree)"
    and "elem_text (getroot ?t) = elem_text (getroot tree)"
    and "children (getroot ?t) = children (getroot tree)"
    by (simp_all add: assign_fill_def update_conv split: element.splits)
  moreover from assms(3) have ok: "fill_accepted (Some v)"
    by (simp add: fill_accepted_def)
  have "written ?run = [?t]"
    by (simp add: svg_to_image_ok [OF assms(1,2) ok])
  moreover have "\<exists>k. configs ?run = [k] \<and> map_of k ''data'' = Some (PBytes (xml_write E ?t))"
    by (simp add: svg_to_image_ok [OF assms(1,2) ok])
  ultimately show ?thesis by blast
qed

theorem C5_fill_override_witness:
  "open_path demo_env facebook_path = Inr (FileObj facebook_svg)
   \<and> xml_parse demo_env (FileObj facebook_svg) = Inr facebook_tree
   \<and> xml_compatible ''#112233''
   \<and> (\<exists>tree' k.
      written (fst (svg_to_image demo_env (SrcPath facebook_path) (Some ''#112233'')
                 None None (PInt 1))) = [tree']
      \<and> configs (fst (svg_to_image demo_env (SrcPath facebook_path) (Some ''#112233'')
                 None None (PInt 1))) = [k]
      \<and> map_of k ''data'' = Some (PBytes (xml_write demo_env tree'))
      \<and> map_of (attrib (getroot tree')) ''fill'' = Some ''#112233''
      \<and> children (getroot tree') = children (getroot facebook_tree))"
  using C5_fill_override [OF demo_source demo_fills(2), of None None "PInt 1"]
    demo_source demo_fills(2)
  by blast

text \<open>
  Claim C6. When the source opens and parses, \<open>svg_to_image\<close> with \<open>fill = None\<close>
  serialises the parsed tree itself, and the \<open>data\<close> entry of the one configuration
  handed to the renderer is that serialisation. So the root's \<open>fill\<close> attribute is as
  parsed: the same value when there was one, none when there was none.
\<close>

theorem C6_no_fill_unchanged:
  assumes "open_path E path = Inr p" and "xml_parse E p = Inr tree"
  shows "\<exists>tree' k.
      written (fst (svg_to_image E (SrcPath path) None
                 scale_to_width scale_to_height scale)) = [tree']
      \<and> tree' = tree
      \<and> map_of (attrib (getroot tree')) ''fill'' = map_of (attrib (getroot tree)) ''fill''
      \<and> configs (fst (svg_to_image E (SrcPath path) None
                 scale_to_width scale_to_height scale)) = [k]
      \<and> map_of k ''data'' = Some (PBytes (xml_write E tree'))"
  by (simp add: svg_to_image_ok [OF assms] fill_accepted_def)

theorem C6_no_fill_unchanged_witness:
  "open_path demo_env facebook_path = Inr (FileObj facebook_svg)
   \<and> xml_parse demo_env (FileObj facebook_svg) = Inr facebook_tree
   \<and> (\<exists>tree' k.
      written (fst (svg_to_image demo_env (SrcPath facebook_path) None
                 None None (PInt 1))) = [tree']
      \<and> tree' = facebook_tree
      \<and> map_of (attrib (getroot tree')) ''fill'' = map_of (attrib (getroot facebook_tree)) ''fill''
      \<and> configs (fst (svg_to_image demo_env (SrcPath facebook_path) None
                 None None (PInt 1))) = [k]
      \<and> map_of k ''data'' = Some (PBytes (xml_write demo_env tree')))"
  using C6_no_fill_unchanged [OF demo_source, of None None "PInt 1"] demo_source
  by blast

text \<open>
  Claim C7. When the source opens and parses and the fill, if one is given, is accepted
  as an attribute value, the one configuration handed to the renderer has no key \<open>scale\<close> when the \<open>scale\<close> argument equals \<open>1\<close>, and has the key
  \<open>scale\<close> with the argument as its value when it does not.
\<close>

theorem C7_scale_key:
  assumes "open_path E path = Inr p" and "xml_parse E p = Inr tree"
    and "fill_accepted fill"
  shows "\<exists>k.
      configs (fst (svg_to_image E (SrcPath path) fill scale_to_width scale_to_height scale)) = [k]
      \<and> map_of k ''scale'' = (if py_eq scale (PInt 1) then None else Some scale)"
  by (simp add: svg_to_image_ok [OF assms])

theorem C7_scale_key_witness:
  "open_path demo_env facebook_path = Inr (FileObj facebook_svg)
   \<and> xml_parse demo_env (FileObj facebook_svg) = Inr facebook_tree
   \<and> fill_accepted None
   \<and> (\<exists>k. configs (fst (svg_to_image demo_env (SrcPath facebook_path) None None None
                (PInt 2))) = [k]
      \<and> map_of k ''scale'' = Some (PInt 2))
   \<and> (\<exists>k. configs (fst (svg_to_image demo_env (SrcPath facebook_path) None None None
                (PInt 1))) = [k]
      \<and> map_of k ''scale'' = None)"
  using C7_scale_key [OF demo_source demo_fills(1), of None None "PInt 2"]
    C7_scale_key [OF demo_source demo_fills(1), of None None "PInt 1"] demo_source demo_fills(1)
  by simp

section \<open>The icon lookup\<close>

text \<open>
  Claim C8. For every name and all arguments, \<open>icon_to_image\<close> is the renderer applied
  to the resolver's result and nothing more: calls and result are those of
  \<open>icon_spec\<close>. An error of the resolver is the error of the lookup, and when the
  resolver returns a file, the result or error of the renderer on that file is the
  result or error of the lookup.
\<close>

theorem C8_icon_is_composition:
  "icon_to_image E name fill scale_to_width scale_to_height scale
     = icon_spec E name fill scale_to_width scale_to_height scale
   \<and> (\<forall>e. snd (get_icon_file E name) = Inl e \<longrightarrow>
          snd (icon_to_image E name fill scale_to_width scale_to_height scale) = Inl e)
   \<and> (\<forall>file. snd (get_icon_file E name) = Inr file \<longrightarrow>
          snd (icon_to_image E name fill scale_to_width scale_to_height scale)
            = snd (svg_to_image E (SrcPath file) fill scale_to_width scale_to_height scale))"
proof -
  obtain t r where g: "get_icon_file E name = (t, r)"
    by (cases "get_icon_file E name")
  show ?thesis
  proof (cases r)
    case (Inl e)
    with g show ?thesis
      by (simp add: icon_to_image_def icon_spec_def io_bind_Inl)
  next
    case (Inr f)
    with g show ?thesis
      by (simp add: icon_to_image_def icon_spec_def io_bind_Inr io_bind_return
          split: prod.splits)
  qed
qed

theorem C8_icon_is_composition_witness:
  "snd (get_icon_file demo_env ''facebook'') = Inr facebook_path
   \<and> snd (icon_to_image demo_env ''facebook'' (Some ''#4267B2'') (Some 64) None (PInt 1))
       = snd (svg_to_image demo_env (SrcPath facebook_path) (Some ''#4267B2'') (Some 64)
               None (PInt 1))
   \<and> snd (get_icon_file demo_env ''not-a-real-icon'')
       = Inl (Exception (not_valid_message ''not-a-real-icon''))
   \<and> snd (icon_to_image demo_env ''not-a-real-icon'' None None None (PInt 1))
       = Inl (Exception (not_valid_message ''not-a-real-icon''))"
proof -
  have a: "snd (get_icon_file demo_env ''not-a-real-icon'')
      = Inl (Exception (not_valid_message ''not-a-real-icon''))"
    by (simp add: get_icon_file_not_found [OF demo_dirs demo_no_match])
  from C8_icon_is_composition
      [of demo_env "''facebook''" "Some ''#4267B2''" "Some 64" None "PInt 1"]
    C8_icon_is_composition [of demo_env "''not-a-real-icon''" None None None "PInt 1"]
    a demo_resolve_facebook
  show ?thesis by blast
qed

text \<open>
  Claim C9. When the three category directories can be listed and no file among them has
  the requested stem, \<open>icon_to_image\<close> raises the exception for an unknown name, and
  among the calls it has made by then there is no \<open>open\<close> and no \<open>parse\<close>.
\<close>

theorem C9_not_found_before_open:
  assumes "listdir E (category_dir E ''brands'') = Inr bs"
    and "listdir E (category_dir E ''regular'') = Inr rs"
    and "listdir E (category_dir E ''solid'') = Inr ss"
    and "name \<notin> set (map stem (entries (category_dir E ''brands'') bs
            @ entries (category_dir E ''regular'') rs
            @ entries (category_dir E ''solid'') ss))"
  shows "snd (icon_to_image E name fill scale_to_width scale_to_height scale)
           = Inl (Exception (not_valid_message name))
      \<and> filter opens_or_parses
           (fst (icon_to_image E name fill scale_to_width scale_to_height scale)) = []"
  by (simp add: icon_to_image_def get_icon_file_not_found [OF assms] io_bind_Inl)

theorem C9_not_found_before_open_witness:
  "listdir demo_env (category_dir demo_env ''brands'') = Inr [''github.svg'', ''facebook.svg'']
   \<and> listdir demo_env (category_dir demo_env ''regular'') = Inr [''facebook.svg'', ''star.svg'']
   \<and> listdir demo_env (category_dir demo_env ''solid'') = Inr [''star.svg'', ''home.svg'']
   \<and> ''not-a-real-icon'' \<notin> set (map stem
        (entries (category_dir demo_env ''brands'') [''github.svg'', ''facebook.svg'']
         @ entries (category_dir demo_env ''regular'') [''facebook.svg'', ''star.svg'']
         @ entries (category_dir demo_env ''solid'') [''star.svg'', ''home.svg'']))
   \<and> snd (icon_to_image demo_env ''not-a-real-icon'' None None None (PInt 1))
         = Inl (Exception (not_valid_message ''not-a-real-icon''))
   \<and> filter opens_or_parses
         (fst (icon_to_image demo_env ''not-a-real-icon'' None None None (PInt 1))) = []"
  using C9_not_found_before_open [OF demo_dirs demo_no_match, of None None None "PInt 1"]
    demo_dirs demo_no_match
  by blast

end
